theory Spec2Isabelle
  imports Complex_Main "HOL-Library.AList" "HOL-Library.Multiset"
begin

section \<open>Python values\<close>

text \<open>
  A Python \<open>float\<close> is a finite double, an infinity or NaN. Every finite double is a
  rational number, so a finite value is carried as the real number it denotes. The matcher
  compares confidences only with the literal \<open>0.5\<close>, which is a double, so the comparison
  of the model is the comparison of the program. Every comparison with NaN is false.
\<close>

datatype pyfloat = Finite real | PosInf | NegInf | NaN

fun float_lt :: "pyfloat \<Rightarrow> real \<Rightarrow> bool" where
  "float_lt (Finite r) t = (r < t)"
| "float_lt NegInf t = True"
| "float_lt PosInf t = False"
| "float_lt NaN t = False"

fun float_ge :: "pyfloat \<Rightarrow> real \<Rightarrow> bool" where
  "float_ge (Finite r) t = (t \<le> r)"
| "float_ge PosInf t = True"
| "float_ge NegInf t = False"
| "float_ge NaN t = False"

text \<open>
  What \<open>json.loads\<close> returns: \<open>None\<close>, a bool, an int, a float (the literals
  \<open>NaN\<close>, \<open>Infinity\<close> and \<open>-Infinity\<close> are accepted), a str, a list or a dict. A dict is
  listed by its items; \<open>json.loads\<close> has resolved repeated keys before the program sees it.
\<close>

datatype json =
    JNull
  | JBool bool
  | JInt int
  | JNum pyfloat
  | JStr string
  | JArr "json list"
  | JObj "(string \<times> json) list"

text \<open>
  The library functions the program calls and does not define: \<open>json.loads\<close>
  (\<open>None\<close> is \<open>JSONDecodeError\<close>), \<open>float\<close> of an int (\<open>None\<close> is \<open>OverflowError\<close>) and
  \<open>float\<close> of a str (\<open>None\<close> is \<open>ValueError\<close>).
\<close>

record pylib =
  json_loads :: "string \<Rightarrow> json option"
  float_of_int :: "int \<Rightarrow> pyfloat option"
  float_of_str :: "string \<Rightarrow> pyfloat option"

text \<open>\<open>float(x)\<close>; \<open>None\<close> is the \<open>TypeError\<close>, \<open>ValueError\<close> or \<open>OverflowError\<close> it raises.\<close>

fun py_float :: "pylib \<Rightarrow> json \<Rightarrow> pyfloat option" where
  "py_float lib (JNum f) = Some f"
| "py_float lib (JInt n) = float_of_int lib n"
| "py_float lib (JBool b) = Some (Finite (if b then 1 else 0))"
| "py_float lib (JStr s) = float_of_str lib s"
| "py_float lib JNull = None"
| "py_float lib (JArr xs) = None"
| "py_float lib (JObj kvs) = None"

text \<open>\<open>result[key]\<close> with a str key; \<open>None\<close> is the \<open>KeyError\<close> or \<open>TypeError\<close> it raises.\<close>

fun subscript :: "json \<Rightarrow> string \<Rightarrow> json option" where
  "subscript (JObj kvs) k = map_of kvs k"
| "subscript JNull k = None"
| "subscript (JBool b) k = None"
| "subscript (JInt n) k = None"
| "subscript (JNum f) k = None"
| "subscript (JStr s) k = None"
| "subscript (JArr xs) k = None"

text \<open>\<open>result.get(key, default)\<close>; \<open>None\<close> is the \<open>AttributeError\<close> of a value that is no dict.\<close>

fun py_get :: "json \<Rightarrow> string \<Rightarrow> json \<Rightarrow> json option" where
  "py_get (JObj kvs) k dflt = (case map_of kvs k of None \<Rightarrow> Some dflt | Some v \<Rightarrow> Some v)"
| "py_get JNull k dflt = None"
| "py_get (JBool b) k dflt = None"
| "py_get (JInt n) k dflt = None"
| "py_get (JNum f) k dflt = None"
| "py_get (JStr s) k dflt = None"
| "py_get (JArr xs) k dflt = None"

text \<open>
  Strings are Python strs whose code points are below 256, one \<open>char\<close> per code point.
  \<open>str.isspace\<close> on these code points, and \<open>str.strip()\<close>.
\<close>

definition py_isspace :: "char \<Rightarrow> bool" where
  "py_isspace c = ((of_char c :: nat) \<in> {9, 10, 11, 12, 13, 28, 29, 30, 31, 32, 133, 160})"

definition py_strip :: "string \<Rightarrow> string" where
  "py_strip s = rev (dropWhile py_isspace (rev (dropWhile py_isspace s)))"

text \<open>\<open>str.split()\<close>: the maximal runs of characters that are not whitespace.\<close>

function py_split :: "string \<Rightarrow> string list" where
  "py_split s =
     (case dropWhile py_isspace s of
        [] \<Rightarrow> []
      | c # cs \<Rightarrow>
          takeWhile (\<lambda>x. \<not> py_isspace x) (c # cs) # py_split (dropWhile (\<lambda>x. \<not> py_isspace x) cs))"
  by pat_completeness auto
termination
proof (relation "measure length")
  fix s :: string and c cs
  assume "dropWhile py_isspace s = c # cs"
  then have "length (c # cs) \<le> length s"
    using length_dropWhile_le [of py_isspace s] by simp
  moreover have "length (dropWhile (\<lambda>x. \<not> py_isspace x) cs) \<le> length cs"
    by (rule length_dropWhile_le)
  ultimately show "(dropWhile (\<lambda>x. \<not> py_isspace x) cs, s) \<in> measure length"
    by simp
qed simp

declare py_split.simps [simp del]

text \<open>\<open>sep.join(parts)\<close> and \<open>s.split(sep)\<close> for a separator of one character.\<close>

fun py_join :: "string \<Rightarrow> string list \<Rightarrow> string" where
  "py_join sep [] = []"
| "py_join sep [x] = x"
| "py_join sep (x # y # ys) = x @ sep @ py_join sep (y # ys)"

fun split_on :: "char \<Rightarrow> string \<Rightarrow> string list" where
  "split_on sep [] = [[]]"
| "split_on sep (c # cs) =
     (if c = sep then [] # split_on sep cs
      else (case split_on sep cs of [] \<Rightarrow> [[c]] | p # ps \<Rightarrow> (c # p) # ps))"

text \<open>
  \<open>s.replace(old, '')\<close> for an \<open>old\<close> that is not empty: its occurrences are dropped
  from left to right.
\<close>

function remove_all :: "string \<Rightarrow> string \<Rightarrow> string" where
  "remove_all old [] = []"
| "remove_all old (c # cs) =
     (if old \<noteq> [] \<and> take (length old) (c # cs) = old
      then remove_all old (drop (length old) (c # cs))
      else c # remove_all old cs)"
  by pat_completeness auto
termination
  by (relation "measure (\<lambda>p. length (snd p))") auto

section \<open>Step 02: matching with the language model\<close>

record BsddClass =
  bsdd_uri :: string
  bsdd_code :: string
  bsdd_name :: string
  bsdd_definition :: string
  domain_namespace :: string

text \<open>
  The category of step 02. Its parser reads \<open>id\<close> and \<open>name\<close> with \<open>category.get\<close>, which
  gives \<open>None\<close> for an attribute the element does not have.
\<close>

record LlmCategory =
  cid :: "string option"
  cname_de :: "string option"
  cparent_id :: "string option"
  cfull_path_de :: "string option"
  curi :: string

record Mapping =
  bsdd_class :: BsddClass
  oekobaudat_category :: LlmCategory
  match_type :: json
  confidence_score :: pyfloat
  reasoning :: json
  mapping_method :: string

text \<open>
  \<open>create_prompt\<close>: the prompt is carried by the data it renders, the product's name, its
  definition (or the text \<open>Not provided\<close>) and the first ten categories.
\<close>

record Prompt =
  product_name :: string
  product_definition :: string
  candidates :: "LlmCategory list"

definition create_prompt :: "BsddClass \<Rightarrow> LlmCategory list \<Rightarrow> Prompt" where
  "create_prompt cls cands =
     \<lparr>product_name = bsdd_name cls,
      product_definition = (if bsdd_definition cls \<noteq> [] then bsdd_definition cls else ''Not provided''),
      candidates = take 10 cands\<rparr>"

text \<open>What \<open>query_llm\<close> does for one prompt: it raises, or returns the message content.\<close>

datatype llm_reply = Raised | Returned "string option"

text \<open>\<open>c.id == result['category_id']\<close>: a str equals a str of the same text, \<open>None\<close> equals \<open>None\<close>.\<close>

fun id_matches :: "string option \<Rightarrow> json \<Rightarrow> bool" where
  "id_matches (Some s) (JStr t) = (s = t)"
| "id_matches None JNull = True"
| "id_matches i j = False"

text \<open>\<open>next((c for c in categories if c.id == wanted), None)\<close>.\<close>

definition find_category :: "json \<Rightarrow> LlmCategory list \<Rightarrow> LlmCategory option" where
  "find_category wanted categories = find (\<lambda>c. id_matches (cid c) wanted) categories"

text \<open>The try block of \<open>create_mapping\<close> up to \<open>json.loads\<close>.\<close>

definition parse_reply :: "pylib \<Rightarrow> llm_reply \<Rightarrow> json option" where
  "parse_reply lib reply =
     (case reply of
        Raised \<Rightarrow> None
      | Returned None \<Rightarrow> None
      | Returned (Some response) \<Rightarrow>
          if response = [] \<or> py_strip response = [] then None
          else json_loads lib (py_strip response))"

text \<open>
  \<open>LLMOnlyMatcher.create_mapping\<close>. Every exception is caught and answered with \<open>None\<close>,
  as the empty response and the unknown category are.
\<close>

definition create_mapping ::
  "pylib \<Rightarrow> llm_reply \<Rightarrow> BsddClass \<Rightarrow> LlmCategory list \<Rightarrow> Mapping option" where
  "create_mapping lib reply cls categories =
     (case parse_reply lib reply of
        None \<Rightarrow> None
      | Some result \<Rightarrow>
         (case subscript result ''category_id'' of
            None \<Rightarrow> None
          | Some wanted \<Rightarrow>
             (case find_category wanted categories of
                None \<Rightarrow> None
              | Some category \<Rightarrow>
                 (case subscript result ''confidence'' of
                    None \<Rightarrow> None
                  | Some raw \<Rightarrow>
                     (case py_float lib raw of
                        None \<Rightarrow> None
                      | Some confidence \<Rightarrow>
                         if float_lt confidence (1/2) then
                           (case subscript result ''reasoning'' of
                              None \<Rightarrow> None
                            | Some why \<Rightarrow>
                                Some \<lparr>bsdd_class = cls, oekobaudat_category = category,
                                      match_type = JStr ''noMatch'', confidence_score = confidence,
                                      reasoning = why, mapping_method = ''llm-only''\<rparr>)
                         else
                           (case py_get result ''match_type'' (JStr ''closeMatch'') of
                              None \<Rightarrow> None
                            | Some label \<Rightarrow>
                               (case subscript result ''reasoning'' of
                                  None \<Rightarrow> None
                                | Some why \<Rightarrow>
                                    Some \<lparr>bsdd_class = cls, oekobaudat_category = category,
                                          match_type = label, confidence_score = confidence,
                                          reasoning = why, mapping_method = ''llm-only''\<rparr>)))))))"

text \<open>
  The matching loop of \<open>main\<close>: one reply per class, a mapping appended whenever
  \<open>create_mapping\<close> returns one.
\<close>

fun match_all :: "pylib \<Rightarrow> (BsddClass \<times> llm_reply) list \<Rightarrow> LlmCategory list \<Rightarrow> Mapping list" where
  "match_all lib [] categories = []"
| "match_all lib ((cls, reply) # rest) categories =
     (case create_mapping lib reply cls categories of
        None \<Rightarrow> match_all lib rest categories
      | Some m \<Rightarrow> m # match_all lib rest categories)"

subsection \<open>The Azure matcher\<close>

record LLMMatchResult =
  result_category_id :: json
  result_category_name :: json
  result_confidence :: pyfloat
  result_reasoning :: json
  result_match_type :: json

text \<open>
  The handling of a Markdown code block in \<open>find_best_match_llm\<close>: a text that starts with
  three backquotes loses its first and last line when it has more than two lines, then every
  \<open>```json\<close> and every \<open>```\<close>, then the whitespace around it.
\<close>

definition fence :: string where
  "fence = [CHR 0x60, CHR 0x60, CHR 0x60]"

definition strip_code_fence :: "string \<Rightarrow> string" where
  "strip_code_fence response_text =
     (if take 3 response_text = fence then
        (let lines = split_on CHR 0x0A response_text;
             inner = (if length lines > 2 then py_join [CHR 0x0A] (butlast (tl lines))
                      else response_text)
         in py_strip (remove_all fence (remove_all (fence @ ''json'') inner)))
      else response_text)"

text \<open>
  The try block of \<open>find_best_match_llm\<close> up to \<open>json.loads\<close>. A content that is \<open>None\<close>
  has no \<open>strip\<close>; that exception is caught like every other.
\<close>

definition azure_parse :: "pylib \<Rightarrow> llm_reply \<Rightarrow> json option" where
  "azure_parse lib reply =
     (case reply of
        Raised \<Rightarrow> None
      | Returned None \<Rightarrow> None
      | Returned (Some response_text) \<Rightarrow> json_loads lib (strip_code_fence (py_strip response_text)))"

text \<open>\<open>AzureOpenAIMatcher.find_best_match_llm\<close>; every exception is answered with \<open>None\<close>.\<close>

definition find_best_match_llm :: "pylib \<Rightarrow> llm_reply \<Rightarrow> LLMMatchResult option" where
  "find_best_match_llm lib reply =
     (case azure_parse lib reply of
        None \<Rightarrow> None
      | Some result \<Rightarrow>
         (case subscript result ''category_id'' of
            None \<Rightarrow> None
          | Some i \<Rightarrow>
             (case subscript result ''category_name'' of
                None \<Rightarrow> None
              | Some n \<Rightarrow>
                 (case subscript result ''confidence'' of
                    None \<Rightarrow> None
                  | Some raw \<Rightarrow>
                     (case py_float lib raw of
                        None \<Rightarrow> None
                      | Some c \<Rightarrow>
                         (case py_get result ''match_type'' (JStr ''closeMatch'') of
                            None \<Rightarrow> None
                          | Some label \<Rightarrow>
                             (case subscript result ''reasoning'' of
                                None \<Rightarrow> None
                              | Some why \<Rightarrow>
                                  Some \<lparr>result_category_id = i, result_category_name = n,
                                        result_confidence = c, result_reasoning = why,
                                        result_match_type = label\<rparr>)))))))"

section \<open>Step 01: the taxonomy, its translation and its graph\<close>

subsection \<open>The parsed XML document\<close>

text \<open>
  An element of \<open>xml.etree.ElementTree\<close>: its tag (with the namespace in braces), its
  attributes and its child elements in document order.
\<close>

datatype xml = Element (tag: string) (attrib: "(string \<times> string) list") (children: "xml list")

datatype xml_error = XmlParseError

definition categories_tag :: string where
  "categories_tag = ''{http://lca.jrc.it/ILCD/Categories}categories''"

definition category_tag :: string where
  "category_tag = ''{http://lca.jrc.it/ILCD/Categories}category''"

text \<open>\<open>elem.get(key)\<close>: the attribute, or \<open>None\<close>.\<close>

definition xml_get :: "xml \<Rightarrow> string \<Rightarrow> string option" where
  "xml_get e k = map_of (attrib e) k"

text \<open>All elements below an element, in document order (\<open>elem.iter()\<close> without the element itself).\<close>

fun descendants :: "xml \<Rightarrow> xml list" where
  "descendants (Element t a cs) = concat (map (\<lambda>c. c # descendants c) cs)"

text \<open>\<open>root.find('.//ns2:categories[@dataType="Process"]', ns)\<close>.\<close>

definition find_process_categories :: "xml \<Rightarrow> xml option" where
  "find_process_categories doc_root =
     find (\<lambda>e. tag e = categories_tag \<and> xml_get e ''dataType'' = Some ''Process'') (descendants doc_root)"

subsection \<open>Categories\<close>

text \<open>
  \<open>OekobaudatCategory\<close> of step 01. \<open>id\<close>, \<open>name_de\<close> and \<open>full_path_de\<close> are \<open>None\<close> when the
  element has no such attribute; the field \<open>id\<close> is named \<open>cat_id\<close> here.
\<close>

record OekobaudatCategory =
  cat_id :: "string option"
  name_de :: "string option"
  name_en :: "string option"
  parent_id :: "string option"
  children_ids :: "string option list"
  level :: nat
  full_path_de :: "string option"
  full_path_en :: "string option"

text \<open>
  The dict \<open>self.categories\<close>, listed by its items in insertion order; \<open>AList.update\<close>
  stores a value as a dict does (a new key last, a known key in its place).
\<close>

type_synonym category_dict = "(string option \<times> OekobaudatCategory) list"

text \<open>The truth value of a str or \<open>None\<close>, and its text in an f-string.\<close>

fun truthy :: "string option \<Rightarrow> bool" where
  "truthy None = False"
| "truthy (Some s) = (s \<noteq> [])"

fun format_str :: "string option \<Rightarrow> string" where
  "format_str None = ''None''"
| "format_str (Some s) = s"

text \<open>
  \<open>self.categories[parent_id].children_ids.append(cat_id)\<close>, done when \<open>parent_id\<close> is
  true and a key of the dict.
\<close>

definition append_child :: "string option \<Rightarrow> string option \<Rightarrow> category_dict \<Rightarrow> category_dict" where
  "append_child parent child cats =
     (case map_of cats parent of
        None \<Rightarrow> cats
      | Some p \<Rightarrow>
          if truthy parent
          then AList.update parent (p\<lparr>children_ids := children_ids p @ [child]\<rparr>) cats
          else cats)"

text \<open>
  \<open>_parse_categories_recursive\<close>: the loop over the children that
  \<open>findall('ns2:category', ns)\<close> selects, those with the category tag; each is stored and then
  descended into before the next one. (Python ends a descent deeper than its recursion limit
  with \<open>RecursionError\<close>; the limit is a setting of the interpreter, not of the program.)
\<close>

fun parse_category_elements ::
  "xml list \<Rightarrow> string option \<Rightarrow> string option \<Rightarrow> nat \<Rightarrow> category_dict \<Rightarrow> category_dict" where
  "parse_category_elements [] parent parent_path lvl cats = cats"
| "parse_category_elements (Element t a cs # rest) parent parent_path lvl cats =
     (if t = category_tag then
        (let i = map_of a ''id'';
             n = map_of a ''name'';
             path = (if truthy parent_path then Some (format_str parent_path @ ''/'' @ format_str n) else n);
             cat_obj = \<lparr>cat_id = i, name_de = n, name_en = None, parent_id = parent,
                        children_ids = [], level = lvl, full_path_de = path, full_path_en = None\<rparr>;
             cats1 = AList.update i cat_obj cats;
             cats2 = append_child parent i cats1;
             cats3 = parse_category_elements cs i path (lvl + 1) cats2
         in parse_category_elements rest parent parent_path lvl cats3)
      else parse_category_elements rest parent parent_path lvl cats)"

definition parse_categories_recursive ::
  "xml \<Rightarrow> string option \<Rightarrow> string option \<Rightarrow> nat \<Rightarrow> category_dict \<Rightarrow> category_dict" where
  "parse_categories_recursive parent_elem parent parent_path lvl cats =
     parse_category_elements (children parent_elem) parent parent_path lvl cats"

subsection \<open>The parser of step 02\<close>

text \<open>
  \<open>OekobaudatParser._parse_categories\<close>: the same descent, appending to the list
  \<open>self.categories\<close>; the f-string of the URI writes an absent identifier as \<open>None\<close>.
\<close>

fun llm_parse_elements ::
  "xml list \<Rightarrow> string option \<Rightarrow> string option \<Rightarrow> LlmCategory list \<Rightarrow> LlmCategory list" where
  "llm_parse_elements [] parent parent_path cats = cats"
| "llm_parse_elements (Element t a cs # rest) parent parent_path cats =
     (if t = category_tag then
        (let i = map_of a ''id'';
             n = map_of a ''name'';
             path = (if truthy parent_path then Some (format_str parent_path @ ''/'' @ format_str n) else n);
             cat_obj = \<lparr>cid = i, cname_de = n, cparent_id = parent, cfull_path_de = path,
                        curi = ''https://oekobaudat.de/category/'' @ format_str i\<rparr>;
             cats1 = llm_parse_elements cs i path (cats @ [cat_obj])
         in llm_parse_elements rest parent parent_path cats1)
      else llm_parse_elements rest parent parent_path cats)"

text \<open>\<open>OekobaudatParser.parse\<close>; the document is what \<open>ET.parse\<close> read, or \<open>None\<close> when it raised.\<close>

definition parser_parse :: "xml option \<Rightarrow> xml_error + LlmCategory list" where
  "parser_parse doc =
     (case doc of
        None \<Rightarrow> Inl XmlParseError
      | Some doc_root \<Rightarrow>
         (case find_process_categories doc_root of
            None \<Rightarrow> Inr []
          | Some categories_elem \<Rightarrow>
              Inr (llm_parse_elements (children categories_elem) None (Some []) [])))"

subsection \<open>The graph\<close>

text \<open>
  An \<open>rdflib\<close> graph is a set of triples of terms; a term is a \<open>URIRef\<close> or a \<open>Literal\<close> with a
  language tag.
\<close>

datatype rdf_term = URIRef string | Literal string string

type_synonym triple = "rdf_term \<times> rdf_term \<times> rdf_term"

definition RDF_type :: rdf_term where
  "RDF_type = URIRef ''http://www.w3.org/1999/02/22-rdf-syntax-ns#type''"

definition RDFS_label :: rdf_term where
  "RDFS_label = URIRef ''http://www.w3.org/2000/01/rdf-schema#label''"

definition RDFS_comment :: rdf_term where
  "RDFS_comment = URIRef ''http://www.w3.org/2000/01/rdf-schema#comment''"

definition RDFS_subClassOf :: rdf_term where
  "RDFS_subClassOf = URIRef ''http://www.w3.org/2000/01/rdf-schema#subClassOf''"

definition OWL_Class :: rdf_term where
  "OWL_Class = URIRef ''http://www.w3.org/2002/07/owl#Class''"

definition OWL_ObjectProperty :: rdf_term where
  "OWL_ObjectProperty = URIRef ''http://www.w3.org/2002/07/owl#ObjectProperty''"

text \<open>
  The namespaces \<open>OBD\<close> and \<open>OEKOCAT\<close>. \<open>Namespace[key]\<close> appends a str key to the base and
  appends nothing for a key that is no str.
\<close>

definition OBD :: "string \<Rightarrow> rdf_term" where
  "OBD local_name = URIRef (''https://oekobaudat.de/class/'' @ local_name)"

definition OEKOCAT :: "string option \<Rightarrow> rdf_term" where
  "OEKOCAT key = URIRef (''https://oekobaudat.de/category/'' @ (case key of None \<Rightarrow> [] | Some k \<Rightarrow> k))"

text \<open>The state of an \<open>OekobaudatRdfBuilder\<close>: its dict of categories and its graph.\<close>

record builder =
  categories :: category_dict
  graph :: "triple set"

text \<open>\<open>_define_custom_property\<close>, and the builder \<open>__init__\<close> leaves.\<close>

definition define_custom_property :: "triple set \<Rightarrow> triple set" where
  "define_custom_property g =
     g \<union> {(OBD ''okobaudatCategory'', RDF_type, OWL_ObjectProperty),
          (OBD ''okobaudatCategory'', RDFS_label, Literal (CHR 0xD6 # ''KOBAUDAT category reference'') ''en''),
          (OBD ''okobaudatCategory'', RDFS_label, Literal (CHR 0xD6 # ''KOBAUDAT Kategorie-Referenz'') ''de''),
          (OBD ''okobaudatCategory'', RDFS_comment,
             Literal (''Links an OWL class to its '' @ CHR 0xD6 # ''kobaudat category ID'') ''en'')}"

definition new_builder :: builder where
  "new_builder = \<lparr>categories = [], graph = define_custom_property {}\<rparr>"

text \<open>
  \<open>parse_xml\<close>. The document is what \<open>ET.parse\<close> read, or \<open>None\<close> when it raised; the program
  does not catch that exception.
\<close>

datatype build_error = ParseError | TypeError | AttributeError

definition parse_xml :: "xml option \<Rightarrow> builder \<Rightarrow> build_error + builder" where
  "parse_xml doc b =
     (case doc of
        None \<Rightarrow> Inl ParseError
      | Some doc_root \<Rightarrow>
         (case find_process_categories doc_root of
            None \<Rightarrow> Inr b
          | Some categories_elem \<Rightarrow>
              Inr (b\<lparr>categories := parse_categories_recursive categories_elem None (Some []) 0 (categories b)\<rparr>)))"

text \<open>
  The character classes of \<open>re\<close> on a str, for code points below 256: \<open>\s\<close> is
  \<open>py_isspace\<close>, \<open>\w\<close> is an alphanumeric character or the underscore.
\<close>

definition py_isword :: "char \<Rightarrow> bool" where
  "py_isword c =
     (let n = (of_char c :: nat) in
        (48 \<le> n \<and> n \<le> 57) \<or> (65 \<le> n \<and> n \<le> 90) \<or> n = 95 \<or> (97 \<le> n \<and> n \<le> 122) \<or>
        n \<in> {170, 178, 179, 181, 185, 186, 188, 189, 190} \<or>
        (192 \<le> n \<and> n \<le> 214) \<or> (216 \<le> n \<and> n \<le> 246) \<or> (248 \<le> n \<and> n \<le> 255))"

definition is_separator :: "char \<Rightarrow> bool" where
  "is_separator c = (py_isspace c \<or> c = CHR ''-'')"

text \<open>\<open>re.sub(r'[\s-]+', '_', s)\<close>: every maximal run of separators becomes one underscore.\<close>

function sub_separators :: "string \<Rightarrow> string" where
  "sub_separators [] = []"
| "sub_separators (c # cs) =
     (if is_separator c then CHR ''_'' # sub_separators (dropWhile is_separator cs)
      else c # sub_separators cs)"
  by pat_completeness auto
termination
  by (relation "measure length") (auto simp: length_dropWhile_le less_Suc_eq_le)

text \<open>\<open>_name_to_class_name\<close> on a str.\<close>

definition name_to_class_name :: "string \<Rightarrow> string" where
  "name_to_class_name name =
     sub_separators (filter (\<lambda>c. py_isword c \<or> py_isspace c \<or> c = CHR ''-'') name)"

text \<open>
  \<open>add_category_to_graph\<close>. \<open>re.sub\<close> raises \<open>TypeError\<close> for a name that is \<open>None\<close>. A
  path that is \<open>None\<close> is written as the text \<open>None\<close>; no parsed category has a name and
  no path.
\<close>

definition add_category_to_graph :: "string option \<Rightarrow> builder \<Rightarrow> build_error + builder" where
  "add_category_to_graph i b =
     (case map_of (categories b) i of
        None \<Rightarrow> Inr b
      | Some category \<Rightarrow>
         (case name_de category of
            None \<Rightarrow> Inl TypeError
          | Some name \<Rightarrow>
             (let class_uri = OBD (name_to_class_name name);
                  g1 = insert (class_uri, RDF_type, OWL_Class) (graph b);
                  g2 = insert (class_uri, RDFS_label, Literal name ''de'') g1;
                  g3 = (if truthy (name_en category)
                        then insert (class_uri, RDFS_label, Literal (format_str (name_en category)) ''en'') g2
                        else g2);
                  g4 = insert (class_uri, RDFS_comment, Literal (format_str (full_path_de category)) ''de'') g3;
                  g5 = (if truthy (full_path_en category)
                        then insert (class_uri, RDFS_comment, Literal (format_str (full_path_en category)) ''en'') g4
                        else g4);
                  g6 = insert (class_uri, OBD ''okobaudatCategory'', OEKOCAT i) g5
              in if truthy (parent_id category) then
                   (case map_of (categories b) (parent_id category) of
                      None \<Rightarrow> Inr (b\<lparr>graph := g6\<rparr>)
                    | Some parent_cat \<Rightarrow>
                       (case name_de parent_cat of
                          None \<Rightarrow> Inl TypeError
                        | Some parent_name \<Rightarrow>
                            Inr (b\<lparr>graph := insert (class_uri, RDFS_subClassOf, OBD (name_to_class_name parent_name)) g6\<rparr>)))
                 else Inr (b\<lparr>graph := g6\<rparr>))))"

text \<open>The loop \<open>for cat_id in self.categories.keys(): self.add_category_to_graph(cat_id)\<close>.\<close>

fun add_all_categories :: "string option list \<Rightarrow> builder \<Rightarrow> build_error + builder" where
  "add_all_categories [] b = Inr b"
| "add_all_categories (i # rest) b =
     (case add_category_to_graph i b of
        Inl e \<Rightarrow> Inl e
      | Inr b1 \<Rightarrow> add_all_categories rest b1)"

text \<open>\<open>build_complete_graph\<close>: parse unless categories are there, then add every category.\<close>

definition build_complete_graph :: "xml option \<Rightarrow> builder \<Rightarrow> build_error + builder" where
  "build_complete_graph doc b =
     (case (if categories b = [] then parse_xml doc b else Inr b) of
        Inl e \<Rightarrow> Inl e
      | Inr b1 \<Rightarrow> add_all_categories (map fst (categories b1)) b1)"

subsection \<open>The translator\<close>

text \<open>The fallback table \<open>TRANSLATION_DICT\<close>, item by item.\<close>

definition translation_items :: "(string \<times> string) list" where
  "translation_items =
     [
      (''Mineralische Baustoffe'', ''Mineral Building Materials''),
      (''D'' @ [CHR 0xE4] @ ''mmstoffe'', ''Insulation Materials''),
      (''Holz'', ''Wood''),
      (''Metalle'', ''Metals''),
      (''Beschichtungen'', ''Coatings''),
      (''Kunststoffe'', ''Plastics''),
      (''Komponenten von Fenstern und Vorhangfassaden'', ''Components of Windows and Curtain Facades''),
      (''Geb'' @ [CHR 0xE4] @ ''udetechnik'', ''Building Services''),
      (''Sonstige'', ''Other''),
      (''Komposite'', ''Composites''),
      (''End of Life'', ''End of Life''),
      (''Bindemittel'', ''Binders''),
      (''Zement'', ''Cement''),
      (''Kalk'', ''Lime''),
      (''Gips'', ''Gypsum''),
      (''Lehm'', ''Clay''),
      (''Zuschl'' @ [CHR 0xE4] @ ''ge'', ''Aggregates''),
      (''Sand und Kies'', ''Sand and Gravel''),
      (''Naturstein'', ''Natural Stone''),
      (''Steine und Elemente'', ''Bricks and Elements''),
      (''Kalksandstein'', ''Calcium Silicate Brick''),
      (''Ziegel'', ''Brick''),
      (''Porenbeton'', ''Aerated Concrete''),
      (''Leichtbeton'', ''Lightweight Concrete''),
      (''Betonfertigteile und Betonwaren'', ''Precast Concrete Elements''),
      (''Gipsplatten'', ''Gypsum Board''),
      (''Fliesen und Platten'', ''Tiles and Slabs''),
      (''M'' @ [CHR 0xF6] @ ''rtel und Beton'', ''Mortar and Concrete''),
      (''Beton'', ''Concrete''),
      (''Mauerm'' @ [CHR 0xF6] @ ''rtel'', ''Masonry Mortar''),
      (''Estrich trocken'', ''Dry Screed''),
      (''Mineralwolle'', ''Mineral Wool''),
      (''Glaswolle'', ''Glass Wool''),
      (''Steinwolle'', ''Stone Wool''),
      (''Holzfaserd'' @ [CHR 0xE4] @ ''mmplatte'', ''Wood Fiber Insulation Board''),
      (''Vollholz'', ''Solid Wood''),
      (''Holzwerkstoffe'', ''Wood-Based Materials''),
      (''Stahl'', ''Steel''),
      (''Stahlprofile'', ''Steel Profiles''),
      (''Aluminium'', ''Aluminum''),
      (''Platten'', ''Boards''),
      (''und'', ''and''),
      (''mit'', ''with''),
      (''f'' @ [CHR 0xFC] @ ''r'', ''for'')
     ]"

definition TRANSLATION_DICT :: "string \<Rightarrow> string option" where
  "TRANSLATION_DICT = map_of translation_items"

text \<open>
  \<open>AutoTranslator.translate\<close>. The cache is a dict of strs to strs, as the program writes
  and reads it. The loop appends one translated word per word of the text.
\<close>

fun translate_words :: "(string \<Rightarrow> string option) \<Rightarrow> string list \<Rightarrow> string list \<Rightarrow> string list" where
  "translate_words cache [] translated_words = translated_words"
| "translate_words cache (word # rest) translated_words =
     translate_words cache rest
       (translated_words @
         [case cache word of
            Some t \<Rightarrow> t
          | None \<Rightarrow> (case TRANSLATION_DICT word of Some t \<Rightarrow> t | None \<Rightarrow> word)])"

definition translate :: "(string \<Rightarrow> string option) \<Rightarrow> string \<Rightarrow> string" where
  "translate cache german_text =
     (case cache german_text of
        Some t \<Rightarrow> t
      | None \<Rightarrow>
         (case TRANSLATION_DICT german_text of
            Some t \<Rightarrow> t
          | None \<Rightarrow> py_join '' '' (translate_words cache (py_split german_text) [])))"

text \<open>
  \<open>translate_category\<close>. A name or a path that is \<open>None\<close> has no \<open>split\<close>: the call raises
  \<open>AttributeError\<close>.
\<close>

definition translate_category ::
  "(string \<Rightarrow> string option) \<Rightarrow> OekobaudatCategory \<Rightarrow> build_error + OekobaudatCategory" where
  "translate_category cache category =
     (case name_de category of
        None \<Rightarrow> Inl AttributeError
      | Some name \<Rightarrow>
         (case full_path_de category of
            None \<Rightarrow> Inl AttributeError
          | Some path \<Rightarrow>
              Inr (category\<lparr>name_en := Some (translate cache name),
                            full_path_en := Some (py_join ''/'' (map (translate cache) (split_on CHR ''/'' path)))\<rparr>)))"

subsection \<open>The main program of step 01\<close>

text \<open>The loop \<open>for cat in builder.categories.values(): translator.translate_category(cat)\<close>.\<close>

fun translate_values :: "(string \<Rightarrow> string option) \<Rightarrow> category_dict \<Rightarrow> build_error + category_dict" where
  "translate_values cache [] = Inr []"
| "translate_values cache ((k, cat) # rest) =
     (case translate_category cache cat of
        Inl e \<Rightarrow> Inl e
      | Inr cat1 \<Rightarrow>
         (case translate_values cache rest of
            Inl e \<Rightarrow> Inl e
          | Inr rest1 \<Rightarrow> Inr ((k, cat1) # rest1)))"

text \<open>
  \<open>main\<close> up to the graph: a new builder parses the document, every category is translated,
  every category is added to the graph.
\<close>

definition main_build :: "(string \<Rightarrow> string option) \<Rightarrow> xml option \<Rightarrow> build_error + builder" where
  "main_build cache doc =
     (case parse_xml doc new_builder of
        Inl e \<Rightarrow> Inl e
      | Inr b1 \<Rightarrow>
         (case translate_values cache (categories b1) of
            Inl e \<Rightarrow> Inl e
          | Inr cats \<Rightarrow> add_all_categories (map fst cats) (b1\<lparr>categories := cats\<rparr>)))"

section \<open>Step 03: scoring against the ground truth\<close>

text \<open>
  A prediction is an object with the attributes \<open>bsdd_class\<close>, \<open>oekobaudat_category\<close> and
  \<open>confidence_score\<close> (a \<open>Mapping\<close>), or a dict, which is read with \<open>get\<close>: its entries
  \<open>code\<close>, \<open>oekobaudat_category_id\<close> and \<open>confidence\<close>, each present or not. Codes and
  identifiers are strs.
\<close>

datatype prediction =
    PredObject Mapping
  | PredDict "string option" "string option" "pyfloat option"

fun pred_code :: "prediction \<Rightarrow> string option" where
  "pred_code (PredObject m) = Some (bsdd_code (bsdd_class m))"
| "pred_code (PredDict c i conf) = c"

fun pred_id :: "prediction \<Rightarrow> string option" where
  "pred_id (PredObject m) = cid (oekobaudat_category m)"
| "pred_id (PredDict c i conf) = i"

fun pred_confidence :: "prediction \<Rightarrow> pyfloat" where
  "pred_confidence (PredObject m) = confidence_score m"
| "pred_confidence (PredDict c i conf) = (case conf of None \<Rightarrow> Finite 0 | Some x \<Rightarrow> x)"

text \<open>
  A ground-truth record is a dict; the entries read are strs. \<open>v['code']\<close> and
  \<open>v['correct_oekobaudat_id']\<close> raise \<open>KeyError\<close> when the entry is missing.
\<close>

type_synonym gt_record = "(string \<times> string) list"

datatype eval_error = KeyError

record error_entry =
  err_code :: string
  predicted :: "string option"
  actual :: string
  err_confidence :: pyfloat

text \<open>The dict comprehension that builds \<open>gt_dict\<close>: a later record replaces an earlier one of its code.\<close>

fun make_gt_dict :: "gt_record list \<Rightarrow> (string \<times> string) list \<Rightarrow> eval_error + (string \<times> string) list" where
  "make_gt_dict [] d = Inr d"
| "make_gt_dict (v # rest) d =
     (case map_of v ''code'' of
        None \<Rightarrow> Inl KeyError
      | Some c \<Rightarrow>
         (case map_of v ''correct_oekobaudat_id'' of
            None \<Rightarrow> Inl KeyError
          | Some i \<Rightarrow> make_gt_dict rest (AList.update c i d)))"

text \<open>The loop over the predictions, with its counter \<open>correct\<close> and its list \<open>errors\<close>.\<close>

fun score_predictions ::
  "(string \<times> string) list \<Rightarrow> prediction list \<Rightarrow> nat \<Rightarrow> error_entry list \<Rightarrow> nat \<times> error_entry list" where
  "score_predictions gt_dict [] correct errors = (correct, errors)"
| "score_predictions gt_dict (pred # rest) correct errors =
     (case pred_code pred of
        None \<Rightarrow> score_predictions gt_dict rest correct errors
      | Some c \<Rightarrow>
         (case map_of gt_dict c of
            None \<Rightarrow> score_predictions gt_dict rest correct errors
          | Some actual_id \<Rightarrow>
              if pred_id pred = Some actual_id
              then score_predictions gt_dict rest (correct + 1) errors
              else score_predictions gt_dict rest correct
                     (errors @ [\<lparr>err_code = c, predicted = pred_id pred, actual = actual_id,
                                 err_confidence = pred_confidence pred\<rparr>])))"

text \<open>
  \<open>evaluate_method\<close>. The accuracy is the exact quotient; Python returns the double nearest
  to it.
\<close>

definition evaluate_method :: "prediction list \<Rightarrow> gt_record list \<Rightarrow> eval_error + (rat \<times> error_entry list)" where
  "evaluate_method predictions ground_truth =
     (let total = length ground_truth in
      case make_gt_dict ground_truth [] of
        Inl e \<Rightarrow> Inl e
      | Inr gt_dict \<Rightarrow>
         (case score_predictions gt_dict predictions 0 [] of
            (correct, errors) \<Rightarrow>
              Inr (if total > 0 then of_nat correct / of_nat total else 0, errors)))"

section \<open>Step 03: the validation sample\<close>











section \<open>The specification's words\<close>

text \<open>
  The banding table of the specification (section 4.3): \<open>c \<ge> 0.90\<close> is exact,
  \<open>0.70 \<le> c < 0.90\<close> is close, \<open>0.50 \<le> c < 0.70\<close> is related, \<open>c < 0.50\<close> is none. No row
  holds for NaN. \<open>band_label\<close> is the program's name of a band.
\<close>

datatype match_band = Exact | Close | Related | NoBand

definition band :: "pyfloat \<Rightarrow> match_band option" where
  "band c =
     (if float_ge c (9/10) then Some Exact
      else if float_ge c (7/10) \<and> float_lt c (9/10) then Some Close
      else if float_ge c (5/10) \<and> float_lt c (7/10) then Some Related
      else if float_lt c (5/10) then Some NoBand
      else None)"

fun band_label :: "match_band \<Rightarrow> string" where
  "band_label Exact = ''exactMatch''"
| "band_label Close = ''closeMatch''"
| "band_label Related = ''relatedMatch''"
| "band_label NoBand = ''noMatch''"

text \<open>A confidence score in the closed interval from 0 to 1.\<close>

fun in_unit_interval :: "pyfloat \<Rightarrow> bool" where
  "in_unit_interval (Finite r) = (0 \<le> r \<and> r \<le> 1)"
| "in_unit_interval PosInf = False"
| "in_unit_interval NegInf = False"
| "in_unit_interval NaN = False"

text \<open>
  Label resolution as the specification words it (section 4.2): the cache on the whole
  phrase, then the fallback table on the whole phrase, then every whitespace-delimited token
  through cache, fallback and identity, joined by single spaces.
\<close>

definition resolve_token :: "(string \<Rightarrow> string option) \<Rightarrow> string \<Rightarrow> string" where
  "resolve_token cache w =
     (case cache w of
        Some t \<Rightarrow> t
      | None \<Rightarrow> (case TRANSLATION_DICT w of Some t \<Rightarrow> t | None \<Rightarrow> w))"

definition resolve_spec :: "(string \<Rightarrow> string option) \<Rightarrow> string \<Rightarrow> string" where
  "resolve_spec cache phrase =
     (case cache phrase of
        Some t \<Rightarrow> t
      | None \<Rightarrow>
         (case TRANSLATION_DICT phrase of
            Some t \<Rightarrow> t
          | None \<Rightarrow> py_join '' '' (map (resolve_token cache) (py_split phrase))))"

section \<open>Example inputs\<close>

text \<open>
  A library whose \<open>json.loads\<close> reads one text as one value, whose \<open>float\<close> is exact on
  the integers a double holds exactly and reads no str (the examples convert none).
\<close>

definition stub_lib :: "string \<Rightarrow> json \<Rightarrow> pylib" where
  "stub_lib text v =
     \<lparr>json_loads = (\<lambda>s. if s = text then Some v else None),
      float_of_int = (\<lambda>n. if \<bar>n\<bar> \<le> 2 ^ 53 then Some (Finite (of_int n)) else None),
      float_of_str = (\<lambda>s. None)\<rparr>"

definition example_class :: BsddClass where
  "example_class =
     \<lparr>bsdd_uri = [], bsdd_code = ''EC000001'', bsdd_name = ''Gypsum board'',
      bsdd_definition = [], domain_namespace = ''etim''\<rparr>"

text \<open>A top-level category as the parser of step 02 builds it.\<close>

definition root_category :: "string \<Rightarrow> string \<Rightarrow> LlmCategory" where
  "root_category i n =
     \<lparr>cid = Some i, cname_de = Some n, cparent_id = None, cfull_path_de = Some n,
      curi = ''https://oekobaudat.de/category/'' @ i\<rparr>"

definition three_categories :: "LlmCategory list" where
  "three_categories =
     [root_category ''1'' ''Holz'', root_category ''2'' ''Metalle'', root_category ''3'' ''Kunststoffe'']"

definition eleven_categories :: "LlmCategory list" where
  "eleven_categories =
     [root_category ''1'' ''Holz'', root_category ''2'' ''Metalle'', root_category ''3'' ''Kunststoffe'',
      root_category ''4'' ''Beschichtungen'', root_category ''5'' ''Komposite'',
      root_category ''6'' ''Sonstige'', root_category ''7'' ''Bindemittel'',
      root_category ''8'' ''Zement'', root_category ''9'' ''Kalk'', root_category ''10'' ''Gips'',
      root_category ''11'' ''Lehm'']"

text \<open>
  The answer of a language model that \<open>json.loads\<close> returns: the chosen identifier, a
  confidence, a label or none, a reason; and the JSON text of that answer, with the
  confidence as it is written.
\<close>

definition answer :: "string \<Rightarrow> pyfloat \<Rightarrow> string option \<Rightarrow> json" where
  "answer i c label =
     JObj ([(''category_id'', JStr i), (''confidence'', JNum c)] @
           (case label of None \<Rightarrow> [] | Some l \<Rightarrow> [(''match_type'', JStr l)]) @
           [(''reasoning'', JStr ''same material'')])"

definition dq :: "string \<Rightarrow> string" where
  "dq s = CHR 0x22 # s @ [CHR 0x22]"

definition answer_text :: "string \<Rightarrow> string \<Rightarrow> string option \<Rightarrow> string" where
  "answer_text i conf label =
     ''{'' @ dq ''category_id'' @ '': '' @ dq i @ '', '' @ dq ''confidence'' @ '': '' @ conf @
     (case label of None \<Rightarrow> [] | Some l \<Rightarrow> '', '' @ dq ''match_type'' @ '': '' @ dq l) @
     '', '' @ dq ''reasoning'' @ '': '' @ dq ''same material'' @ ''}''"

text \<open>The library that reads that text as that answer, and the reply that carries the text.\<close>

definition example_lib :: "string \<Rightarrow> string \<Rightarrow> pyfloat \<Rightarrow> string option \<Rightarrow> pylib" where
  "example_lib i conf c label = stub_lib (answer_text i conf label) (answer i c label)"

definition example_reply :: "string \<Rightarrow> string \<Rightarrow> string option \<Rightarrow> llm_reply" where
  "example_reply i conf label = Returned (Some (answer_text i conf label))"

text \<open>
  An answer to the Azure matcher, which names the category too, and its JSON text inside a
  Markdown code block.
\<close>

definition azure_answer :: "string \<Rightarrow> pyfloat \<Rightarrow> json" where
  "azure_answer i c =
     JObj [(''category_id'', JStr i), (''category_name'', JStr ''Wood''), (''confidence'', JNum c),
           (''reasoning'', JStr ''same material'')]"

definition azure_answer_text :: "string \<Rightarrow> string \<Rightarrow> string" where
  "azure_answer_text i conf =
     ''{'' @ dq ''category_id'' @ '': '' @ dq i @ '', '' @ dq ''category_name'' @ '': '' @ dq ''Wood'' @
     '', '' @ dq ''confidence'' @ '': '' @ conf @
     '', '' @ dq ''reasoning'' @ '': '' @ dq ''same material'' @ ''}''"

definition fenced :: "string \<Rightarrow> string" where
  "fenced body = fence @ ''json'' @ [CHR 0x0A] @ body @ [CHR 0x0A] @ fence"

definition azure_lib :: "string \<Rightarrow> string \<Rightarrow> pyfloat \<Rightarrow> pylib" where
  "azure_lib i conf c = stub_lib (azure_answer_text i conf) (azure_answer i c)"

definition azure_reply :: "string \<Rightarrow> string \<Rightarrow> llm_reply" where
  "azure_reply i conf = Returned (Some (fenced (azure_answer_text i conf)))"

section \<open>What the properties speak of\<close>

subsection \<open>Ingestion\<close>



text \<open>The pairs of identifier and parent identifier of a taxonomy.\<close>

definition id_parent_pairs :: "category_dict \<Rightarrow> (string option \<times> string option) set" where
  "id_parent_pairs cats = set (map (\<lambda>kv. (cat_id (snd kv), parent_id (snd kv))) cats)"

text \<open>Example documents: a category element, and a document around category elements.\<close>

definition category_element :: "string \<Rightarrow> string \<Rightarrow> xml list \<Rightarrow> xml" where
  "category_element i n kids = Element category_tag [(''id'', i), (''name'', n)] kids"

definition taxonomy_doc :: "xml list \<Rightarrow> xml" where
  "taxonomy_doc cats =
     Element ''{http://lca.jrc.it/ILCD/Categories}CategorySystem'' []
       [Element categories_tag [(''dataType'', ''Process'')] cats]"

text \<open>
  Two taxonomies with a category named \<open>Sonstige\<close> below each of two parents; the second
  has the identifiers of the two exchanged.
\<close>

definition taxonomy_a :: xml where
  "taxonomy_a = taxonomy_doc
     [category_element ''1'' ''Holz'' [category_element ''1.9'' ''Sonstige'' []],
      category_element ''2'' ''Metalle'' [category_element ''2.9'' ''Sonstige'' []]]"

definition taxonomy_b :: xml where
  "taxonomy_b = taxonomy_doc
     [category_element ''1'' ''Holz'' [category_element ''2.9'' ''Sonstige'' []],
      category_element ''2'' ''Metalle'' [category_element ''1.9'' ''Sonstige'' []]]"

text \<open>A category of the third level, not yet translated.\<close>

definition lime_category :: OekobaudatCategory where
  "lime_category =
     \<lparr>cat_id = Some ''1.1.02'', name_de = Some ''Kalk'', name_en = None, parent_id = Some ''1.1'',
      children_ids = [], level = 2, full_path_de = Some ''Mineralische Baustoffe/Bindemittel/Kalk'',
      full_path_en = None\<rparr>"


subsection \<open>Scoring\<close>

text \<open>
  The accuracy as the specification words it (section 4.6): the correspondences whose
  selected identifier equals the ground-truth identifier of the same code, over the
  ground-truth records whose code has a correspondence.
\<close>

definition agreeing :: "prediction list \<Rightarrow> gt_record list \<Rightarrow> nat" where
  "agreeing predictions ground_truth =
     length (filter (\<lambda>p. list_ex (\<lambda>v. map_of v ''code'' \<noteq> None \<and> map_of v ''code'' = pred_code p \<and>
                                      map_of v ''correct_oekobaudat_id'' \<noteq> None \<and>
                                      map_of v ''correct_oekobaudat_id'' = pred_id p) ground_truth)
                    predictions)"

definition covered :: "prediction list \<Rightarrow> gt_record list \<Rightarrow> nat" where
  "covered predictions ground_truth =
     length (filter (\<lambda>v. map_of v ''code'' \<noteq> None \<and> map_of v ''code'' \<in> set (map pred_code predictions))
                    ground_truth)"

definition spec_accuracy :: "prediction list \<Rightarrow> gt_record list \<Rightarrow> rat" where
  "spec_accuracy predictions ground_truth =
     of_nat (agreeing predictions ground_truth) / of_nat (covered predictions ground_truth)"

text \<open>
  The ground truth of a code is the identifier of the last record of that code. A prediction
  is judged when its code has a ground truth: right when its identifier is that one, wrong
  otherwise. \<open>error_of\<close> is the entry recorded for a wrong one.
\<close>

definition truth_pairs :: "gt_record list \<Rightarrow> (string \<times> string) list" where
  "truth_pairs ground_truth =
     map (\<lambda>v. (the (map_of v ''code''), the (map_of v ''correct_oekobaudat_id''))) ground_truth"

definition truth_of :: "gt_record list \<Rightarrow> string \<Rightarrow> string option" where
  "truth_of ground_truth = map_of (rev (truth_pairs ground_truth))"

definition judged :: "(string \<Rightarrow> string option) \<Rightarrow> prediction \<Rightarrow> bool option" where
  "judged truth p =
     (case pred_code p of
        None \<Rightarrow> None
      | Some c \<Rightarrow> (case truth c of None \<Rightarrow> None | Some a \<Rightarrow> Some (pred_id p = Some a)))"

definition error_of :: "(string \<Rightarrow> string option) \<Rightarrow> prediction \<Rightarrow> error_entry" where
  "error_of truth p =
     \<lparr>err_code = the (pred_code p), predicted = pred_id p,
      actual = the (truth (the (pred_code p))), err_confidence = pred_confidence p\<rparr>"

text \<open>Example predictions and ground-truth records.\<close>

definition example_prediction :: "string \<Rightarrow> string \<Rightarrow> pyfloat \<Rightarrow> prediction" where
  "example_prediction c i conf =
     PredObject \<lparr>bsdd_class = example_class\<lparr>bsdd_code := c\<rparr>,
                 oekobaudat_category = root_category i ''Holz'',
                 match_type = JStr ''closeMatch'', confidence_score = conf,
                 reasoning = JStr ''same material'', mapping_method = ''llm-only''\<rparr>"

definition example_truth :: "string \<Rightarrow> string \<Rightarrow> gt_record" where
  "example_truth c i = [(''code'', c), (''correct_oekobaudat_id'', i)]"

subsection \<open>Sampling\<close>


section \<open>Properties\<close>

subsection \<open>Matching\<close>

lemma three_categories_parsed:
  "parser_parse (Some (taxonomy_doc [category_element ''1'' ''Holz'' [],
      category_element ''2'' ''Metalle'' [], category_element ''3'' ''Kunststoffe'' []]))
     = Inr three_categories"
  by code_simp

lemma strip_answer_text: "py_strip (answer_text i conf label) = answer_text i conf label"
  by (simp add: answer_text_def py_strip_def py_isspace_def split: option.split)

lemma parse_example:
  "parse_reply (example_lib i conf c label) (example_reply i conf label) = Some (answer i c label)"
proof -
  have "answer_text i conf label \<noteq> []"
    by (simp add: answer_text_def)
  then show ?thesis
    by (simp add: parse_reply_def example_lib_def example_reply_def stub_lib_def strip_answer_text)
qed

lemma float_example: "py_float (example_lib i conf c label) (JNum x) = Some x"
  by simp

lemma azure_parse_example:
  "azure_parse (azure_lib ''1'' ''1.5'' c) (azure_reply ''1'' ''1.5'') = Some (azure_answer ''1'' c)"
proof -
  have "strip_code_fence (py_strip (fenced (azure_answer_text ''1'' ''1.5''))) = azure_answer_text ''1'' ''1.5''"
    by code_simp
  then show ?thesis
    by (simp add: azure_parse_def azure_lib_def azure_reply_def stub_lib_def)
qed

lemma match_all_set:
  "set (match_all lib work cats) =
     {m. \<exists>cls reply. (cls, reply) \<in> set work \<and> create_mapping lib reply cls cats = Some m}"
  by (induction lib work cats rule: match_all.induct) (auto split: option.splits)

lemma find_best_match_llm_fields:
  assumes "find_best_match_llm lib reply = Some r"
    and "azure_parse lib reply = Some result"
  shows "(\<exists>raw. subscript result ''confidence'' = Some raw \<and> py_float lib raw = Some (result_confidence r))
       \<and> py_get result ''match_type'' (JStr ''closeMatch'') = Some (result_match_type r)"
  using assms unfolding find_best_match_llm_def
  by (auto split: option.splits)




text \<open>
  C2 (as the program has it). When the identifier the matcher selected is the identifier of
  no category in the whole list given to \<open>create_mapping\<close>, no mapping is made and the
  matching loop emits nothing for the entry. (The prompt shows the matcher the first ten
  categories of that list only.)
\<close>

theorem unknown_category_rejected:
  assumes "parse_reply lib reply = Some result"
    and "subscript result ''category_id'' = Some wanted"
    and "find_category wanted cats = None"
  shows "create_mapping lib reply cls cats = None
       \<and> match_all lib ((cls, reply) # rest) cats = match_all lib rest cats"
proof -
  have "create_mapping lib reply cls cats = None"
    using assms unfolding create_mapping_def by simp
  then show ?thesis by simp
qed

theorem unknown_category_rejected_witness:
  "parse_reply (example_lib ''Z.9'' ''0.9375'' (Finite (15/16)) (Some ''exactMatch''))
      (example_reply ''Z.9'' ''0.9375'' (Some ''exactMatch''))
     = Some (answer ''Z.9'' (Finite (15/16)) (Some ''exactMatch''))
   \<and> subscript (answer ''Z.9'' (Finite (15/16)) (Some ''exactMatch'')) ''category_id'' = Some (JStr ''Z.9'')
   \<and> find_category (JStr ''Z.9'') three_categories = None
   \<and> create_mapping (example_lib ''Z.9'' ''0.9375'' (Finite (15/16)) (Some ''exactMatch''))
        (example_reply ''Z.9'' ''0.9375'' (Some ''exactMatch'')) example_class three_categories = None
   \<and> match_all (example_lib ''Z.9'' ''0.9375'' (Finite (15/16)) (Some ''exactMatch''))
        [(example_class, example_reply ''Z.9'' ''0.9375'' (Some ''exactMatch''))] three_categories = []"
proof -
  let ?a = "answer ''Z.9'' (Finite (15/16)) (Some ''exactMatch'')"
  have s: "subscript ?a ''category_id'' = Some (JStr ''Z.9'')"
    by (simp add: answer_def)
  have f: "find_category (JStr ''Z.9'') three_categories = None"
    by (simp add: find_category_def three_categories_def root_category_def)
  from unknown_category_rejected [OF parse_example s f, where cls = example_class and rest = "[]"]
  show ?thesis using s f by (simp add: parse_example)
qed

text \<open>
  C2 (as the specification has it) fails: with eleven categories the prompt supplies ten;
  the identifier of the eleventh is not among them, and the mapping is made all the same.
\<close>

theorem unsupplied_category_accepted:
  "find_category (JStr ''11'') (candidates (create_prompt example_class eleven_categories)) = None
   \<and> create_mapping (example_lib ''11'' ''0.75'' (Finite (3/4)) (Some ''closeMatch''))
        (example_reply ''11'' ''0.75'' (Some ''closeMatch'')) example_class eleven_categories =
     Some \<lparr>bsdd_class = example_class, oekobaudat_category = root_category ''11'' ''Lehm'',
           match_type = JStr ''closeMatch'', confidence_score = Finite (3/4),
           reasoning = JStr ''same material'', mapping_method = ''llm-only''\<rparr>"
  by (simp add: create_mapping_def parse_example find_category_def answer_def eleven_categories_def
      root_category_def create_prompt_def)

text \<open>
  C4. An entry whose reply parses, names a category of the list, carries a confidence that
  converts to a float below 0.5 and carries a reason is not dropped: \<open>create_mapping\<close>
  returns a mapping that keeps the selected category and the confidence and is labelled with
  the none band, and the matching loop emits it.
\<close>

theorem low_confidence_still_emitted:
  assumes "(cls, reply) \<in> set work"
    and "parse_reply lib reply = Some result"
    and "subscript result ''category_id'' = Some wanted"
    and "find_category wanted cats = Some category"
    and "subscript result ''confidence'' = Some raw"
    and "py_float lib raw = Some confidence"
    and "subscript result ''reasoning'' = Some why"
    and "float_lt confidence (1/2)"
  shows "create_mapping lib reply cls cats =
           Some \<lparr>bsdd_class = cls, oekobaudat_category = category,
                 match_type = JStr (band_label NoBand), confidence_score = confidence,
                 reasoning = why, mapping_method = ''llm-only''\<rparr>
       \<and> \<lparr>bsdd_class = cls, oekobaudat_category = category,
           match_type = JStr (band_label NoBand), confidence_score = confidence,
           reasoning = why, mapping_method = ''llm-only''\<rparr> \<in> set (match_all lib work cats)"
proof -
  have made: "create_mapping lib reply cls cats =
      Some \<lparr>bsdd_class = cls, oekobaudat_category = category,
            match_type = JStr (band_label NoBand), confidence_score = confidence,
            reasoning = why, mapping_method = ''llm-only''\<rparr>"
    using assms(2-) unfolding create_mapping_def by simp
  with assms(1) show ?thesis unfolding match_all_set by blast
qed

theorem low_confidence_still_emitted_witness:
  "(example_class, example_reply ''3'' ''0.25'' (Some ''closeMatch''))
      \<in> set [(example_class, example_reply ''3'' ''0.25'' (Some ''closeMatch''))]
   \<and> find_category (JStr ''3'') three_categories = Some (root_category ''3'' ''Kunststoffe'')
   \<and> float_lt (Finite (1/4)) (1/2)
   \<and> match_all (example_lib ''3'' ''0.25'' (Finite (1/4)) (Some ''closeMatch''))
        [(example_class, example_reply ''3'' ''0.25'' (Some ''closeMatch''))] three_categories =
      [\<lparr>bsdd_class = example_class, oekobaudat_category = root_category ''3'' ''Kunststoffe'',
        match_type = JStr ''noMatch'', confidence_score = Finite (1/4),
        reasoning = JStr ''same material'', mapping_method = ''llm-only''\<rparr>]"
proof -
  let ?a = "answer ''3'' (Finite (1/4)) (Some ''closeMatch'')"
  let ?r = "example_reply ''3'' ''0.25'' (Some ''closeMatch'')"
  have w: "(example_class, ?r) \<in> set [(example_class, ?r)]"
    by simp
  have i: "subscript ?a ''category_id'' = Some (JStr ''3'')"
    and c: "subscript ?a ''confidence'' = Some (JNum (Finite (1/4)))"
    and r: "subscript ?a ''reasoning'' = Some (JStr ''same material'')"
    by (simp_all add: answer_def)
  have f: "find_category (JStr ''3'') three_categories = Some (root_category ''3'' ''Kunststoffe'')"
    by (simp add: find_category_def three_categories_def root_category_def)
  have l: "float_lt (Finite (1/4)) (1/2)"
    by simp
  from low_confidence_still_emitted [OF w parse_example i f c float_example r l]
  show ?thesis using f by simp
qed

text \<open>
  C8 (as the program has it). The confidence of a mapping is the float of the confidence
  entry of the reply, as it is: nothing brings it into the interval from 0 to 1. The same
  holds of the confidence of a result of the Azure matcher.
\<close>

theorem confidence_is_raw_value:
  "(\<forall>m result. create_mapping lib reply cls cats = Some m \<longrightarrow> parse_reply lib reply = Some result \<longrightarrow>
      (\<exists>raw. subscript result ''confidence'' = Some raw
            \<and> py_float lib raw = Some (confidence_score m)))
   \<and> (\<forall>r result. find_best_match_llm lib reply = Some r \<longrightarrow> azure_parse lib reply = Some result \<longrightarrow>
      (\<exists>raw. subscript result ''confidence'' = Some raw
            \<and> py_float lib raw = Some (result_confidence r)))"
proof (intro conjI allI impI)
  fix m result
  assume "create_mapping lib reply cls cats = Some m" and "parse_reply lib reply = Some result"
  then show "\<exists>raw. subscript result ''confidence'' = Some raw \<and> py_float lib raw = Some (confidence_score m)"
    unfolding create_mapping_def by (auto split: option.splits if_splits)
next
  fix r result
  assume "find_best_match_llm lib reply = Some r" and "azure_parse lib reply = Some result"
  then show "\<exists>raw. subscript result ''confidence'' = Some raw \<and> py_float lib raw = Some (result_confidence r)"
    using find_best_match_llm_fields by blast
qed

theorem confidence_is_raw_value_witness:
  "create_mapping (example_lib ''1'' ''-2.0'' (Finite (-2)) None)
      (example_reply ''1'' ''-2.0'' None) example_class three_categories =
     Some \<lparr>bsdd_class = example_class, oekobaudat_category = root_category ''1'' ''Holz'',
           match_type = JStr ''noMatch'', confidence_score = Finite (-2),
           reasoning = JStr ''same material'', mapping_method = ''llm-only''\<rparr>
   \<and> subscript (answer ''1'' (Finite (-2)) None) ''confidence'' = Some (JNum (Finite (-2)))
   \<and> py_float (example_lib ''1'' ''-2.0'' (Finite (-2)) None) (JNum (Finite (-2))) = Some (Finite (-2))
   \<and> find_best_match_llm (azure_lib ''1'' ''1.5'' (Finite (3/2))) (azure_reply ''1'' ''1.5'') =
     Some \<lparr>result_category_id = JStr ''1'', result_category_name = JStr ''Wood'',
           result_confidence = Finite (3/2), result_reasoning = JStr ''same material'',
           result_match_type = JStr ''closeMatch''\<rparr>
   \<and> subscript (azure_answer ''1'' (Finite (3/2))) ''confidence'' = Some (JNum (Finite (3/2)))"
proof -
  let ?m = "\<lparr>bsdd_class = example_class, oekobaudat_category = root_category ''1'' ''Holz'',
           match_type = JStr ''noMatch'', confidence_score = Finite (-2),
           reasoning = JStr ''same material'', mapping_method = ''llm-only''\<rparr>"
  let ?r = "\<lparr>result_category_id = JStr ''1'', result_category_name = JStr ''Wood'',
           result_confidence = Finite (3/2), result_reasoning = JStr ''same material'',
           result_match_type = JStr ''closeMatch''\<rparr>"
  have made: "create_mapping (example_lib ''1'' ''-2.0'' (Finite (-2)) None)
      (example_reply ''1'' ''-2.0'' None) example_class three_categories = Some ?m"
    by (simp add: create_mapping_def parse_example find_category_def answer_def three_categories_def
        root_category_def)
  have found: "find_best_match_llm (azure_lib ''1'' ''1.5'' (Finite (3/2))) (azure_reply ''1'' ''1.5'') = Some ?r"
    by (simp add: find_best_match_llm_def azure_parse_example azure_answer_def)
  from confidence_is_raw_value [of "example_lib ''1'' ''-2.0'' (Finite (-2)) None"
      "example_reply ''1'' ''-2.0'' None" example_class three_categories]
    confidence_is_raw_value [of "azure_lib ''1'' ''1.5'' (Finite (3/2))" "azure_reply ''1'' ''1.5''"]
  show ?thesis using made found by (simp add: answer_def azure_answer_def)
qed

text \<open>
  C8 (as the specification has it) fails: the reply's confidence 1.5 is the confidence of
  the mapping.
\<close>

theorem confidence_outside_unit_interval:
  "create_mapping (example_lib ''2'' ''1.5'' (Finite (3/2)) (Some ''exactMatch''))
      (example_reply ''2'' ''1.5'' (Some ''exactMatch'')) example_class three_categories =
     Some \<lparr>bsdd_class = example_class, oekobaudat_category = root_category ''2'' ''Metalle'',
           match_type = JStr ''exactMatch'', confidence_score = Finite (3/2),
           reasoning = JStr ''same material'', mapping_method = ''llm-only''\<rparr>
   \<and> \<not> in_unit_interval (Finite (3/2))"
  by (simp add: create_mapping_def parse_example find_category_def answer_def three_categories_def
      root_category_def)

text \<open>
  C10. A reply that parses to a dict, names a category of the list, has a confidence at or
  above 0.5 and has no \<open>match_type\<close> entry gives no mapping other than one labelled
  \<open>closeMatch\<close>, and gives that mapping whenever the reply carries a reason; the band of the
  confidence plays no part. A result of the Azure matcher for a reply without a
  \<open>match_type\<close> entry is labelled \<open>closeMatch\<close> as well.
\<close>

theorem missing_match_type_is_closeMatch:
  assumes "parse_reply lib reply = Some (JObj kvs)"
    and "map_of kvs ''category_id'' = Some wanted"
    and "find_category wanted cats = Some category"
    and "map_of kvs ''confidence'' = Some raw"
    and "py_float lib raw = Some confidence"
    and "float_ge confidence (1/2)"
    and "map_of kvs ''match_type'' = None"
  shows "(\<forall>m. create_mapping lib reply cls cats = Some m \<longrightarrow> match_type m = JStr ''closeMatch'')
       \<and> (\<forall>why. map_of kvs ''reasoning'' = Some why \<longrightarrow>
             create_mapping lib reply cls cats =
               Some \<lparr>bsdd_class = cls, oekobaudat_category = category,
                     match_type = JStr ''closeMatch'', confidence_score = confidence,
                     reasoning = why, mapping_method = ''llm-only''\<rparr>)
       \<and> (\<forall>lib' reply' kvs' r. azure_parse lib' reply' = Some (JObj kvs') \<longrightarrow>
             map_of kvs' ''match_type'' = None \<longrightarrow>
             find_best_match_llm lib' reply' = Some r \<longrightarrow>
             result_match_type r = JStr ''closeMatch'')"
proof (intro conjI)
  from assms show "\<forall>m. create_mapping lib reply cls cats = Some m \<longrightarrow> match_type m = JStr ''closeMatch''"
    unfolding create_mapping_def by (cases confidence) (auto split: option.splits if_splits)
  from assms show "\<forall>why. map_of kvs ''reasoning'' = Some why \<longrightarrow>
             create_mapping lib reply cls cats =
               Some \<lparr>bsdd_class = cls, oekobaudat_category = category,
                     match_type = JStr ''closeMatch'', confidence_score = confidence,
                     reasoning = why, mapping_method = ''llm-only''\<rparr>"
    unfolding create_mapping_def by (cases confidence) (auto split: option.splits if_splits)
  show "\<forall>lib' reply' kvs' r. azure_parse lib' reply' = Some (JObj kvs') \<longrightarrow>
             map_of kvs' ''match_type'' = None \<longrightarrow>
             find_best_match_llm lib' reply' = Some r \<longrightarrow>
             result_match_type r = JStr ''closeMatch''"
    using find_best_match_llm_fields by fastforce
qed

theorem missing_match_type_is_closeMatch_witness:
  "parse_reply (example_lib ''1'' ''1.0'' (Finite 1) None) (example_reply ''1'' ''1.0'' None)
     = Some (answer ''1'' (Finite 1) None)
   \<and> find_category (JStr ''1'') three_categories = Some (root_category ''1'' ''Holz'')
   \<and> float_ge (Finite 1) (1/2)
   \<and> band (Finite 1) = Some Exact
   \<and> create_mapping (example_lib ''1'' ''1.0'' (Finite 1) None)
        (example_reply ''1'' ''1.0'' None) example_class three_categories =
      Some \<lparr>bsdd_class = example_class, oekobaudat_category = root_category ''1'' ''Holz'',
            match_type = JStr ''closeMatch'', confidence_score = Finite 1,
            reasoning = JStr ''same material'', mapping_method = ''llm-only''\<rparr>
   \<and> find_best_match_llm (azure_lib ''1'' ''1.5'' (Finite (3/2))) (azure_reply ''1'' ''1.5'') =
      Some \<lparr>result_category_id = JStr ''1'', result_category_name = JStr ''Wood'',
            result_confidence = Finite (3/2), result_reasoning = JStr ''same material'',
            result_match_type = JStr ''closeMatch''\<rparr>"
proof -
  let ?kvs = "[(''category_id'', JStr ''1''), (''confidence'', JNum (Finite 1)),
               (''reasoning'', JStr ''same material'')]"
  have a: "answer ''1'' (Finite 1) None = JObj ?kvs"
    by (simp add: answer_def)
  have p: "parse_reply (example_lib ''1'' ''1.0'' (Finite 1) None) (example_reply ''1'' ''1.0'' None)
      = Some (JObj ?kvs)"
    by (simp add: parse_example a)
  have i: "map_of ?kvs ''category_id'' = Some (JStr ''1'')"
    and c: "map_of ?kvs ''confidence'' = Some (JNum (Finite 1))"
    and t: "map_of ?kvs ''match_type'' = None"
    and r: "map_of ?kvs ''reasoning'' = Some (JStr ''same material'')"
    by simp_all
  have f: "find_category (JStr ''1'') three_categories = Some (root_category ''1'' ''Holz'')"
    by (simp add: find_category_def three_categories_def root_category_def)
  have g: "float_ge (Finite 1) (1/2)"
    by simp
  have found: "find_best_match_llm (azure_lib ''1'' ''1.5'' (Finite (3/2))) (azure_reply ''1'' ''1.5'') =
      Some \<lparr>result_category_id = JStr ''1'', result_category_name = JStr ''Wood'',
            result_confidence = Finite (3/2), result_reasoning = JStr ''same material'',
            result_match_type = JStr ''closeMatch''\<rparr>"
    by (simp add: find_best_match_llm_def azure_parse_example azure_answer_def)
  from missing_match_type_is_closeMatch [OF p i f c float_example g t, where cls = example_class] r
  show ?thesis using f found by (simp add: parse_example band_def)
qed

subsection \<open>Label resolution\<close>

lemma translate_words_map:
  "translate_words cache ws acc = acc @ map (resolve_token cache) ws"
  by (induction ws arbitrary: acc) (simp_all add: resolve_token_def)

lemma translate_resolve: "translate cache phrase = resolve_spec cache phrase"
  by (simp add: translate_def resolve_spec_def translate_words_map split: option.splits)

lemma py_split_Nil:
  assumes "dropWhile py_isspace s = []"
  shows "py_split s = []"
  by (subst py_split.simps) (simp only: assms list.case)

lemma py_split_Cons:
  assumes "dropWhile py_isspace s = c # cs"
  shows "py_split s =
    takeWhile (\<lambda>x. \<not> py_isspace x) (c # cs) # py_split (dropWhile (\<lambda>x. \<not> py_isspace x) cs)"
  by (subst py_split.simps) (simp only: assms list.case)

lemma dropWhile_space_hd:
  "dropWhile py_isspace s = c # cs \<Longrightarrow> \<not> py_isspace c"
  using hd_dropWhile [of py_isspace s] by simp

lemma py_split_tokens:
  "w \<in> set (py_split s) \<Longrightarrow> w \<noteq> [] \<and> (\<forall>c \<in> set w. \<not> py_isspace c)"
proof (induction s rule: py_split.induct)
  case (1 s)
  show ?case
  proof (cases "dropWhile py_isspace s")
    case Nil
    with "1.prems" show ?thesis by (simp add: py_split_Nil)
  next
    case (Cons c cs)
    then have nsp: "\<not> py_isspace c" by (rule dropWhile_space_hd)
    from "1.prems" Cons have "w = takeWhile (\<lambda>x. \<not> py_isspace x) (c # cs) \<or>
        w \<in> set (py_split (dropWhile (\<lambda>x. \<not> py_isspace x) cs))"
      by (simp add: py_split_Cons)
    then show ?thesis
    proof
      assume w: "w = takeWhile (\<lambda>x. \<not> py_isspace x) (c # cs)"
      with nsp have "w \<noteq> []" by simp
      moreover have "\<forall>x \<in> set w. \<not> py_isspace x"
        unfolding w using set_takeWhileD by fastforce
      ultimately show ?thesis by blast
    next
      assume "w \<in> set (py_split (dropWhile (\<lambda>x. \<not> py_isspace x) cs))"
      with "1.IH" Cons show ?thesis by blast
    qed
  qed
qed

lemma filter_dropWhile_neg: "filter (\<lambda>x. \<not> P x) (dropWhile P s) = filter (\<lambda>x. \<not> P x) s"
  by (induction s) auto

lemma filter_take_drop_While: "filter P s = takeWhile P s @ filter P (dropWhile P s)"
  by (induction s) auto

lemma py_split_concat:
  "concat (py_split s) = filter (\<lambda>x. \<not> py_isspace x) s"
proof (induction s rule: py_split.induct)
  case (1 s)
  show ?case
  proof (cases "dropWhile py_isspace s")
    case Nil
    then have "filter (\<lambda>x. \<not> py_isspace x) s = []"
      using filter_dropWhile_neg [of py_isspace s] by simp
    with Nil show ?thesis by (simp add: py_split_Nil)
  next
    case (Cons c cs)
    then have nsp: "\<not> py_isspace c" by (rule dropWhile_space_hd)
    let ?N = "\<lambda>x. \<not> py_isspace x"
    have "filter ?N s = filter ?N (c # cs)"
      using filter_dropWhile_neg [of py_isspace s] Cons by simp
    also have "\<dots> = takeWhile ?N (c # cs) @ filter ?N (dropWhile ?N (c # cs))"
      by (rule filter_take_drop_While)
    also have "\<dots> = takeWhile ?N (c # cs) @ filter ?N (dropWhile ?N cs)"
      using nsp by simp
    also have "\<dots> = takeWhile ?N (c # cs) @ concat (py_split (dropWhile ?N cs))"
      using "1.IH" Cons by simp
    also have "\<dots> = concat (py_split s)"
      using Cons by (simp add: py_split_Cons)
    finally show ?thesis by simp
  qed
qed

text \<open>
  C6. \<open>translate\<close> is the resolution of the specification: the cached translation of the
  whole phrase, else the fallback translation of the whole phrase, else the tokens of the
  phrase, each through cache, fallback and identity, joined by single spaces. The tokens are
  not empty, hold no whitespace and are, one after the other, the phrase without its
  whitespace. \<open>translate\<close> has a result for every cache and every phrase: no step of it raises.
  \<open>translate_category\<close> resolves the label of a category and every segment of its path so.
\<close>

theorem translate_resolution_order:
  "translate cache phrase = resolve_spec cache phrase
   \<and> (\<forall>w \<in> set (py_split phrase). w \<noteq> [] \<and> (\<forall>c \<in> set w. \<not> py_isspace c))
   \<and> concat (py_split phrase) = filter (\<lambda>c. \<not> py_isspace c) phrase
   \<and> (\<forall>name path. name_de category = Some name \<longrightarrow> full_path_de category = Some path \<longrightarrow>
        translate_category cache category =
          Inr (category\<lparr>name_en := Some (resolve_spec cache name),
                        full_path_en := Some (py_join ''/'' (map (resolve_spec cache) (split_on CHR ''/'' path)))\<rparr>))"
proof -
  have same: "translate cache = resolve_spec cache"
    by (rule ext) (rule translate_resolve)
  show ?thesis
    using py_split_tokens [of _ phrase]
    by (simp add: same py_split_concat translate_category_def)
qed

lemma split_example: "py_split ''Holz  und Stahl xyz '' = [''Holz'', ''und'', ''Stahl'', ''xyz'']"
  by code_simp

lemma dict_examples:
  "TRANSLATION_DICT ''Holz  und Stahl xyz '' = None"
  "TRANSLATION_DICT ''Holz'' = Some ''Wood''"
  "TRANSLATION_DICT ''und'' = Some ''and''"
  "TRANSLATION_DICT ''Stahl'' = Some ''Steel''"
  "TRANSLATION_DICT ''xyz'' = None"
  "TRANSLATION_DICT ''Sand und Kies'' = Some ''Sand and Gravel''"
  by code_simp+

lemma translate_lime:
  "translate_category Map.empty lime_category =
     Inr (lime_category\<lparr>name_en := Some ''Lime'',
                         full_path_en := Some ''Mineral Building Materials/Binders/Lime''\<rparr>)"
  by code_simp

theorem translate_resolution_order_witness:
  "translate (Map.empty(''Holz'' \<mapsto> ''Timber'')) ''Holz  und Stahl xyz '' = ''Timber and Steel xyz''
   \<and> translate (Map.empty(''Holz'' \<mapsto> ''Timber'')) ''Holz'' = ''Timber''
   \<and> translate (Map.empty(''Holz'' \<mapsto> ''Timber'')) ''Sand und Kies'' = ''Sand and Gravel''
   \<and> py_split ''Holz  und Stahl xyz '' = [''Holz'', ''und'', ''Stahl'', ''xyz'']
   \<and> translate_category Map.empty lime_category =
       Inr (lime_category\<lparr>name_en := Some ''Lime'',
                           full_path_en := Some ''Mineral Building Materials/Binders/Lime''\<rparr>)"
  using translate_resolution_order [of "Map.empty(''Holz'' \<mapsto> ''Timber'')" "''Holz  und Stahl xyz ''" lime_category]
    translate_resolution_order [of "Map.empty(''Holz'' \<mapsto> ''Timber'')" "''Holz''" lime_category]
    translate_resolution_order [of "Map.empty(''Holz'' \<mapsto> ''Timber'')" "''Sand und Kies''" lime_category]
  by (simp add: resolve_spec_def resolve_token_def split_example dict_examples translate_lime)







subsection \<open>The graph\<close>

text \<open>
  C9 fails on the program. The class node of a category is named by its sanitized label
  alone, so the two categories named \<open>Sonstige\<close> share one node; the two taxonomies, whose
  pairs of identifier and parent identifier differ, are exported to the same graph, by
  \<open>build_complete_graph\<close> and by \<open>main\<close> alike, and no reading of that graph gives both
  their pairs back.
\<close>

theorem different_taxonomies_same_graph:
  "map_sum id graph (build_complete_graph (Some taxonomy_a) new_builder)
     = map_sum id graph (build_complete_graph (Some taxonomy_b) new_builder)
   \<and> \<not> isl (build_complete_graph (Some taxonomy_a) new_builder)
   \<and> map_sum id graph (main_build Map.empty (Some taxonomy_a))
     = map_sum id graph (main_build Map.empty (Some taxonomy_b))
   \<and> \<not> isl (main_build Map.empty (Some taxonomy_a))
   \<and> map_sum id (id_parent_pairs \<circ> categories) (parse_xml (Some taxonomy_a) new_builder)
     \<noteq> map_sum id (id_parent_pairs \<circ> categories) (parse_xml (Some taxonomy_b) new_builder)"
proof -
  have "map_sum id graph (build_complete_graph (Some taxonomy_a) new_builder)
     = map_sum id graph (build_complete_graph (Some taxonomy_b) new_builder)"
    by code_simp
  moreover have "\<not> isl (build_complete_graph (Some taxonomy_a) new_builder)"
    by code_simp
  moreover have "map_sum id graph (main_build Map.empty (Some taxonomy_a))
     = map_sum id graph (main_build Map.empty (Some taxonomy_b))"
    by code_simp
  moreover have "\<not> isl (main_build Map.empty (Some taxonomy_a))"
    by code_simp
  moreover have "map_sum id (id_parent_pairs \<circ> categories) (parse_xml (Some taxonomy_a) new_builder)
     \<noteq> map_sum id (id_parent_pairs \<circ> categories) (parse_xml (Some taxonomy_b) new_builder)"
    by code_simp
  ultimately show ?thesis
    by (intro conjI)
qed

subsection \<open>Scoring\<close>

lemma make_gt_dict_ok:
  assumes "\<forall>v \<in> set ground_truth. map_of v ''code'' \<noteq> None \<and> map_of v ''correct_oekobaudat_id'' \<noteq> None"
  shows "\<exists>d'. make_gt_dict ground_truth d = Inr d' \<and> map_of d' = map_of (rev (truth_pairs ground_truth) @ d)"
  using assms
proof (induction ground_truth arbitrary: d)
  case Nil
  then show ?case by (simp add: truth_pairs_def)
next
  case (Cons v rest)
  from Cons.prems obtain c i where c: "map_of v ''code'' = Some c"
    and i: "map_of v ''correct_oekobaudat_id'' = Some i"
    by auto
  from Cons.prems have "\<forall>v \<in> set rest. map_of v ''code'' \<noteq> None \<and> map_of v ''correct_oekobaudat_id'' \<noteq> None"
    by simp
  from Cons.IH [OF this, of "AList.update c i d"]
  obtain d' where d': "make_gt_dict rest (AList.update c i d) = Inr d'"
    and m: "map_of d' = map_of (rev (truth_pairs rest) @ AList.update c i d)"
    by blast
  have "map_of (rev (truth_pairs rest) @ AList.update c i d) = map_of (rev (truth_pairs (v # rest)) @ d)"
    by (rule ext) (simp add: truth_pairs_def c i map_add_def update_conv' split: option.splits)
  with d' m show ?case by (simp add: c i)
qed

lemma score_predictions_eq:
  "score_predictions d predictions correct errors =
     (correct + length (filter (\<lambda>p. judged (map_of d) p = Some True) predictions),
      errors @ map (error_of (map_of d)) (filter (\<lambda>p. judged (map_of d) p = Some False) predictions))"
  by (induction predictions arbitrary: correct errors)
     (auto simp: judged_def error_of_def split: option.splits)

text \<open>
  C3 (as the program has it). When every ground-truth record has its code and its
  identifier, the accuracy is the number of predictions judged right over the number of all
  ground-truth records, with or without a prediction (0 when there is no record), and the
  errors are the predictions judged wrong, in order, each with its code, its predicted
  identifier, the actual identifier and its confidence.
\<close>

theorem evaluate_method_result:
  assumes "\<forall>v \<in> set ground_truth. map_of v ''code'' \<noteq> None \<and> map_of v ''correct_oekobaudat_id'' \<noteq> None"
  shows "evaluate_method predictions ground_truth =
     Inr (if ground_truth = [] then 0
          else of_nat (length (filter (\<lambda>p. judged (truth_of ground_truth) p = Some True) predictions))
               / of_nat (length ground_truth),
          map (error_of (truth_of ground_truth))
              (filter (\<lambda>p. judged (truth_of ground_truth) p = Some False) predictions))"
proof -
  from make_gt_dict_ok [OF assms, of "[]"]
  obtain d where d: "make_gt_dict ground_truth [] = Inr d"
    and m: "map_of d = truth_of ground_truth"
    by (auto simp: truth_of_def)
  show ?thesis
    by (simp add: evaluate_method_def d score_predictions_eq m)
qed

theorem evaluate_method_result_witness:
  "evaluate_method [example_prediction ''C1'' ''A.1'' (Finite (3/4)), example_prediction ''C2'' ''A.3'' (Finite (5/8))]
      [example_truth ''C1'' ''A.1'', example_truth ''C2'' ''A.2''] =
     Inr (1/2, [\<lparr>err_code = ''C2'', predicted = Some ''A.3'', actual = ''A.2'', err_confidence = Finite (5/8)\<rparr>])"
proof -
  let ?gt = "[example_truth ''C1'' ''A.1'', example_truth ''C2'' ''A.2'']"
  have h: "\<forall>v \<in> set ?gt. map_of v ''code'' \<noteq> None \<and> map_of v ''correct_oekobaudat_id'' \<noteq> None"
    by (simp add: example_truth_def)
  show ?thesis
    unfolding evaluate_method_result [OF h]
    by (simp add: truth_of_def truth_pairs_def judged_def error_of_def example_prediction_def
        example_truth_def example_class_def root_category_def)
qed

text \<open>
  C3 (as the specification has it) fails: with ground truth for C1 and C2 and one, right,
  prediction for C1, the program's accuracy is 1/2; the quotient of the specification, which
  leaves C2 out of the denominator, is 1.
\<close>

theorem denominator_counts_unmatched_truth:
  "evaluate_method [example_prediction ''C1'' ''A.1'' (Finite (3/4))]
      [example_truth ''C1'' ''A.1'', example_truth ''C2'' ''A.2''] = Inr (1/2, [])
   \<and> spec_accuracy [example_prediction ''C1'' ''A.1'' (Finite (3/4))]
      [example_truth ''C1'' ''A.1'', example_truth ''C2'' ''A.2''] = 1"
  by (simp add: evaluate_method_def example_prediction_def example_truth_def example_class_def
      root_category_def spec_accuracy_def agreeing_def covered_def)

subsection \<open>Sampling\<close>


















end
